theory Spec2Isabelle
  imports Complex_Main "HOL-Library.Sublist" "HOL-Library.Word"
begin

section \<open>The GeoRSS feed client of \<^verbatim>\<open>aio_georss_client/feed.py\<close>\<close>

text \<open>
  The class \<^verbatim>\<open>GeoRssFeed\<close> is embedded by explicit state passing: the instance is a
  record, every method takes it and returns it, changed where the method assigns an
  attribute. What the network, the response decoder and the XML parser do is not code of
  \<^verbatim>\<open>feed.py\<close>; it is an argument of the model (the record \<open>world\<close>), so every theorem
  holds for every behaviour of these collaborators. Exceptions are values: a method that
  may raise returns \<open>exn + result\<close>. The calls of the logger are left out, but not the
  evaluation of an argument of theirs that can raise (line 137).
\<close>

subsection \<open>Constants of \<^verbatim>\<open>consts.py\<close>\<close>

text \<open>
  Modelled from the spec: the module \<^verbatim>\<open>consts.py\<close> is not among the sources. The status
  enumeration has exactly the three values \<^verbatim>\<open>OK\<close>, \<^verbatim>\<open>OK_NO_DATA\<close> and \<^verbatim>\<open>ERROR\<close>.
\<close>

datatype status = UPDATE_OK | UPDATE_OK_NO_DATA | UPDATE_ERROR

text \<open>
  Modelled from the spec: the default request timeout is a fixed constant, 10 seconds.
\<close>

definition DEFAULT_REQUEST_TIMEOUT :: nat where
  "DEFAULT_REQUEST_TIMEOUT = 10"

text \<open>
  Modelled from the spec: the only key of the global metadata is the attribution.
\<close>

datatype global_key = ATTR_ATTRIBUTION

type_synonym global_data = "global_key \<rightharpoonup> string"

subsection \<open>Data\<close>

text \<open>
  A \<^verbatim>\<open>datetime\<close> is a point on the time line. Every \<^verbatim>\<open>datetime\<close> object is truthy in
  Python, so \<^verbatim>\<open>if entry.published\<close> tests for \<^verbatim>\<open>None\<close> only.
\<close>

type_synonym datetime = int

text \<open>
  What the client reads of an entry: \<^verbatim>\<open>geometry\<close> (\<^verbatim>\<open>None\<close> when absent),
  \<^verbatim>\<open>distance_to_home\<close> (a float, here a real number), \<^verbatim>\<open>category\<close> and \<^verbatim>\<open>published\<close>.
\<close>

record 'g entry =
  geometry :: "'g option"
  distance_to_home :: real
  category :: "string option"
  published :: "datetime option"

text \<open>The parsed feed: its author and its raw entry records, in document order.\<close>

record 'r feed =
  author :: "string option"
  entries :: "'r list"

type_synonym namespaces = "(string \<times> string) list"

datatype xml_parser = XmlParser "namespaces option"

text \<open>
  The instance. \<^verbatim>\<open>__init__\<close> assigns the first six attributes; \<^verbatim>\<open>parser\<close> and
  \<^verbatim>\<open>feed_data\<close> do not exist (here \<open>None\<close>) until \<^verbatim>\<open>_fetch\<close> assigns them.
\<close>

record 'r client =
  websession :: nat
  home_coordinates :: "real \<times> real"
  filter_radius :: "real option"
  filter_categories :: "string option list option"
  url :: string
  last_timestamp :: "datetime option"
  parser :: "xml_parser option"
  feed_data :: "'r feed option option"

definition init ::
  "nat \<Rightarrow> real \<times> real \<Rightarrow> string \<Rightarrow> real option \<Rightarrow> string option list option \<Rightarrow> 'r client" where
  "init session home u radius categories =
     \<lparr>websession = session, home_coordinates = home, filter_radius = radius,
      filter_categories = categories, url = u, last_timestamp = None,
      parser = None, feed_data = None\<rparr>"

subsection \<open>\<^verbatim>\<open>_filter_entries\<close>\<close>

text \<open>
  \<^verbatim>\<open>if self._filter_radius:\<close> is a truthiness test: \<^verbatim>\<open>None\<close> and \<^verbatim>\<open>0\<close> skip the stage.
  \<^verbatim>\<open>if self._filter_categories:\<close> likewise: \<^verbatim>\<open>None\<close> and an empty collection skip it.
  The category test is the source's: the intersection of the singleton \<^verbatim>\<open>{entry.category}\<close>
  with the configured categories has at least one element.
\<close>

definition filter_entries :: "'r client \<Rightarrow> 'g entry list \<Rightarrow> 'g entry list" where
  "filter_entries self entry_list =
     (let filtered_entries = filter (\<lambda>entry. geometry entry \<noteq> None) entry_list;
          filtered_entries =
            (case filter_radius self of
               None \<Rightarrow> filtered_entries
             | Some radius \<Rightarrow>
                 if radius \<noteq> 0
                 then filter (\<lambda>entry. distance_to_home entry \<le> radius) filtered_entries
                 else filtered_entries);
          filtered_entries =
            (case filter_categories self of
               None \<Rightarrow> filtered_entries
             | Some categories \<Rightarrow>
                 if categories \<noteq> []
                 then filter (\<lambda>entry. card ({category entry} \<inter> set categories) > 0)
                        filtered_entries
                 else filtered_entries)
      in filtered_entries)"

subsection \<open>\<^verbatim>\<open>_extract_last_timestamp\<close>\<close>

text \<open>\<^verbatim>\<open>sorted(xs, reverse=True)\<close>: descending order.\<close>

definition sorted_reverse :: "datetime list \<Rightarrow> datetime list" where
  "sorted_reverse xs = rev (sort xs)"

definition extract_last_timestamp :: "'g entry list \<Rightarrow> datetime option" where
  "extract_last_timestamp feed_entries =
     (if feed_entries \<noteq> [] then
        (let dates = sorted_reverse (List.map_filter published feed_entries)
         in case dates of
              newest # _ \<Rightarrow> Some newest
            | [] \<Rightarrow> None)
      else None)"

subsection \<open>\<^verbatim>\<open>_extract_from_feed\<close>\<close>

text \<open>\<^verbatim>\<open>if author:\<close> is false for \<^verbatim>\<open>None\<close> and for the empty string.\<close>

definition extract_from_feed :: "'r feed \<Rightarrow> global_data" where
  "extract_from_feed fd =
     (case author fd of
        None \<Rightarrow> Map.empty
      | Some a \<Rightarrow> if a \<noteq> [] then [ATTR_ATTRIBUTION \<mapsto> a] else Map.empty)"

subsection \<open>Exceptions\<close>

text \<open>
  The exceptions the handlers of \<^verbatim>\<open>_fetch\<close> tell apart: \<open>ClientError\<close> stands for
  \<^verbatim>\<open>aiohttp.client_exceptions.ClientError\<close> and its subclasses (connection errors, and
  the error \<^verbatim>\<open>raise_for_status\<close> raises), \<open>TimeoutError\<close> for \<^verbatim>\<open>asyncio.TimeoutError\<close>,
  \<open>OtherException\<close> for an exception of any other class, with its name. \<open>TypeError\<close>
  and \<open>AttributeError\<close> are the built-in exceptions, which no handler of \<^verbatim>\<open>feed.py\<close>
  names.
\<close>

datatype exn = ClientError | TimeoutError | TypeError | AttributeError | OtherException string

subsection \<open>The response and \<^verbatim>\<open>_pre_process_response\<close>\<close>

type_synonym byte = "8 word"

text \<open>
  \<^verbatim>\<open>_pre_process_response\<close> reads \<^verbatim>\<open>response.encoding\<close>, calls
  \<^verbatim>\<open>response.content.startswith\<close> and assigns \<^verbatim>\<open>response.encoding\<close>. Reading an
  attribute that an object does not have raises \<^verbatim>\<open>AttributeError\<close>, and so does calling a
  method that it does not have. An attribute is therefore absent or present with its
  value, and the content is either a byte string, which has \<^verbatim>\<open>startswith\<close>, or a stream
  reader over the payload, which has not.
\<close>

datatype 'a attribute = NoAttribute | Attribute 'a

datatype content = Bytes "byte list" | StreamReader "byte list"

text \<open>
  The response: its HTTP status, the encoding that its header declares (\<open>charset\<close>), its
  attribute \<^verbatim>\<open>encoding\<close> and its \<^verbatim>\<open>content\<close>.
\<close>

record response =
  http_status :: nat
  charset :: "string option"
  encoding :: "string option attribute"
  content :: content

text \<open>
  The response that \<^verbatim>\<open>_fetch\<close> receives is the one of
  \<^verbatim>\<open>async with self._websession.request(...)\<close>, where \<^verbatim>\<open>websession\<close> is an aiohttp
  \<^verbatim>\<open>ClientSession\<close> (lines 10 and 22): an aiohttp \<^verbatim>\<open>ClientResponse\<close>. It has no attribute
  \<^verbatim>\<open>encoding\<close>, and its \<^verbatim>\<open>content\<close> is a stream reader.
\<close>

definition ClientResponse :: "nat \<Rightarrow> string option \<Rightarrow> byte list \<Rightarrow> response" where
  "ClientResponse code declared payload =
     \<lparr>http_status = code, charset = declared, encoding = NoAttribute,
      content = StreamReader payload\<rparr>"

text \<open>\<^verbatim>\<open>codecs.BOM_UTF8\<close> is \<^verbatim>\<open>b'\xef\xbb\xbf'\<close>.\<close>

definition BOM_UTF8 :: "byte list" where
  "BOM_UTF8 = [0xEF, 0xBB, 0xBF]"

text \<open>Evaluating \<^verbatim>\<open>response.encoding\<close>, and \<^verbatim>\<open>response.content.startswith(bs)\<close>.\<close>

definition get_encoding :: "response \<Rightarrow> exn + string option" where
  "get_encoding r =
     (case encoding r of
        NoAttribute \<Rightarrow> Inl AttributeError
      | Attribute v \<Rightarrow> Inr v)"

definition startswith :: "content \<Rightarrow> byte list \<Rightarrow> exn + bool" where
  "startswith c bs =
     (case c of
        Bytes payload \<Rightarrow> Inr (prefix bs payload)
      | StreamReader payload \<Rightarrow> Inl AttributeError)"

text \<open>
  The argument is \<open>None\<close> for Python's \<^verbatim>\<open>None\<close>, on which \<^verbatim>\<open>if response:\<close> skips the
  body; a response object is truthy. Line 137 evaluates \<^verbatim>\<open>response.encoding\<close> as an
  argument of the logger, line 138 calls \<^verbatim>\<open>startswith\<close>, line 141 assigns the attribute.
  The method returns nothing: the model returns the response after the call, or the
  exception raised.
\<close>

definition pre_process_response :: "response option \<Rightarrow> exn + response option" where
  "pre_process_response response =
     (case response of
        None \<Rightarrow> Inr None
      | Some r \<Rightarrow>
          (case get_encoding r of
             Inl e \<Rightarrow> Inl e
           | Inr _ \<Rightarrow>
               (case startswith (content r) BOM_UTF8 of
                  Inl e \<Rightarrow> Inl e
                | Inr bom \<Rightarrow>
                    if bom
                    then Inr (Some (r\<lparr>encoding := Attribute (Some ''utf-8-sig'')\<rparr>))
                    else Inr (Some r))))"

subsection \<open>\<^verbatim>\<open>_fetch\<close>\<close>

type_synonym headers = "(string \<times> string) list"
type_synonym params = "(string \<times> string) list"

text \<open>
  The collaborators of one call, none of them code of \<^verbatim>\<open>feed.py\<close>:
  \<open>request\<close> is entering \<^verbatim>\<open>async with self._websession.request(method, url, headers, params,
  timeout)\<close>, \<open>raise_for_status\<close> and \<open>response_text\<close> are the response's methods (the
  second decodes the payload with the response's encoding), \<open>parse\<close> is \<^verbatim>\<open>XmlParser.parse\<close>.
  Each returns its value or raises.
\<close>

record 'r world =
  request :: "string \<Rightarrow> string \<Rightarrow> headers option \<Rightarrow> params option \<Rightarrow> nat \<Rightarrow> exn + response"
  raise_for_status :: "response \<Rightarrow> exn + unit"
  response_text :: "response \<Rightarrow> exn + string"
  parse :: "xml_parser \<Rightarrow> string \<Rightarrow> exn + 'r feed option"

definition client_session_timeout :: nat where
  "client_session_timeout = DEFAULT_REQUEST_TIMEOUT"

text \<open>The body of \<^verbatim>\<open>_additional_namespaces\<close> is \<^verbatim>\<open>pass\<close>: it returns \<^verbatim>\<open>None\<close>.\<close>

definition additional_namespaces :: "namespaces option" where
  "additional_namespaces = None"

text \<open>
  The body of the inner \<^verbatim>\<open>try\<close> (lines 88 to 95), before its handler. An exception of
  any of its calls ends it.
\<close>

definition fetch_body ::
  "'r world \<Rightarrow> 'r client \<Rightarrow> response \<Rightarrow> 'r client \<times> (exn + status \<times> 'r feed option)" where
  "fetch_body w self response =
     (case raise_for_status w response of
        Inl e \<Rightarrow> (self, Inl e)
      | Inr _ \<Rightarrow>
          (case pre_process_response (Some response) of
             Inl e \<Rightarrow> (self, Inl e)
           | Inr processed \<Rightarrow>
               (let response = (case processed of Some r \<Rightarrow> r | None \<Rightarrow> response)
                in case response_text w response of
                     Inl e \<Rightarrow> (self, Inl e)
                   | Inr body_text \<Rightarrow>
                       (let xml_parser = XmlParser additional_namespaces
                        in case parse w xml_parser body_text of
                             Inl e \<Rightarrow> (self, Inl e)
                           | Inr fd \<Rightarrow>
                               (self\<lparr>parser := Some xml_parser, feed_data := Some fd\<rparr>,
                                Inr (UPDATE_OK, fd))))))"

text \<open>
  The handlers of the outer \<^verbatim>\<open>try\<close>: \<^verbatim>\<open>ClientError\<close> and \<^verbatim>\<open>asyncio.TimeoutError\<close> become
  the result \<^verbatim>\<open>(UPDATE_ERROR, None)\<close>; any other exception propagates.
\<close>

definition except_outer ::
  "'r client \<Rightarrow> exn \<Rightarrow> 'r client \<times> (exn + status \<times> 'r feed option)" where
  "except_outer self e =
     (case e of
        ClientError \<Rightarrow> (self, Inr (UPDATE_ERROR, None))
      | TimeoutError \<Rightarrow> (self, Inr (UPDATE_ERROR, None))
      | _ \<Rightarrow> (self, Inl e))"

text \<open>
  The coroutine body of \<^verbatim>\<open>_fetch\<close>, run to its end. The inner handler catches
  \<^verbatim>\<open>ClientError\<close> only; what it does not catch reaches the outer handlers.
\<close>

definition fetch ::
  "'r world \<Rightarrow> 'r client \<Rightarrow> string \<Rightarrow> headers option \<Rightarrow> params option
     \<Rightarrow> 'r client \<times> (exn + status \<times> 'r feed option)" where
  "fetch w self method hdrs prms =
     (let timeout = client_session_timeout
      in case request w method (url self) hdrs prms timeout of
           Inl e \<Rightarrow> except_outer self e
         | Inr response \<Rightarrow>
             (case fetch_body w self response of
                (self', Inl e) \<Rightarrow>
                  (case e of
                     ClientError \<Rightarrow> (self', Inr (UPDATE_ERROR, None))
                   | _ \<Rightarrow> except_outer self' e)
              | (self', Inr result) \<Rightarrow> (self', Inr result)))"

subsection \<open>\<^verbatim>\<open>update\<close>\<close>

text \<open>
  Line 55 is \<^verbatim>\<open>status, data = self._fetch()\<close>, with no \<^verbatim>\<open>await\<close>. Calling a method
  defined with \<^verbatim>\<open>async def\<close> runs none of its body: the call evaluates to a coroutine
  object, here \<open>Coroutine r\<close> where \<open>r\<close> is what the body would produce if it were run.
  Unpacking a coroutine object into two names raises \<^verbatim>\<open>TypeError\<close>, since it is not
  iterable. \<open>Returned status data\<close> is a pair, which unpacks into its two components.
\<close>

datatype 'r fetch_value =
    Coroutine "'r client \<times> (exn + status \<times> 'r feed option)"
  | Returned status "'r feed option"

definition unpack :: "'r fetch_value \<Rightarrow> exn + status \<times> 'r feed option" where
  "unpack v =
     (case v of
        Coroutine body \<Rightarrow> Inl TypeError
      | Returned status data \<Rightarrow> Inr (status, data))"

text \<open>
  \<^verbatim>\<open>update\<close> from the value of \<^verbatim>\<open>self._fetch()\<close> on (lines 55 to 76). \<open>new_entry\<close> is
  the abstract method \<^verbatim>\<open>_new_entry\<close> of the concrete feed class. \<^verbatim>\<open>if data:\<close> is false
  for \<^verbatim>\<open>None\<close>; a feed object is truthy.
\<close>

definition update_on ::
  "(real \<times> real \<Rightarrow> 'r \<Rightarrow> global_data \<Rightarrow> 'g entry) \<Rightarrow> 'r client \<Rightarrow> 'r fetch_value
     \<Rightarrow> 'r client \<times> (exn + status \<times> 'g entry list option)" where
  "update_on new_entry self v =
     (case unpack v of
        Inl e \<Rightarrow> (self, Inl e)
      | Inr (status, data) \<Rightarrow>
          if status = UPDATE_OK then
            (case data of
               Some d \<Rightarrow>
                 (let global_data = extract_from_feed d;
                      entry_list =
                        map (\<lambda>rss_entry. new_entry (home_coordinates self) rss_entry global_data)
                          (entries d);
                      filtered_entries = filter_entries self entry_list
                  in (self\<lparr>last_timestamp := extract_last_timestamp filtered_entries\<rparr>,
                      Inr (UPDATE_OK, Some filtered_entries)))
             | None \<Rightarrow> (self, Inr (UPDATE_OK, None)))
          else if status = UPDATE_OK_NO_DATA then (self, Inr (UPDATE_OK_NO_DATA, None))
          else (self, Inr (UPDATE_ERROR, None)))"

text \<open>
  \<^verbatim>\<open>self._fetch()\<close> with the \<^verbatim>\<open>_fetch\<close> of this class, and \<^verbatim>\<open>update\<close> as the class has it.
\<close>

definition call_fetch :: "'r world \<Rightarrow> 'r client \<Rightarrow> 'r fetch_value" where
  "call_fetch w self = Coroutine (fetch w self ''GET'' None None)"

definition update ::
  "'r world \<Rightarrow> (real \<times> real \<Rightarrow> 'r \<Rightarrow> global_data \<Rightarrow> 'g entry) \<Rightarrow> 'r client
     \<Rightarrow> 'r client \<times> (exn + status \<times> 'g entry list option)" where
  "update w new_entry self = update_on new_entry self (call_fetch w self)"

subsection \<open>Concrete inputs\<close>

text \<open>
  Inputs on which the definitions are evaluated below: entries with a point geometry, an
  entry without geometry, a client built by \<^verbatim>\<open>__init__\<close>, a feed class whose raw records
  are the entries themselves, a parsed feed, collaborators that answer every request
  the same way (with the \<^verbatim>\<open>raise_for_status\<close> of aiohttp: an error from status 400 on),
  and a response object that, unlike a \<^verbatim>\<open>ClientResponse\<close>, has the attribute \<^verbatim>\<open>encoding\<close>
  and a byte string as \<^verbatim>\<open>content\<close>.
\<close>

definition entry_at :: "real \<Rightarrow> string option \<Rightarrow> datetime option \<Rightarrow> nat entry" where
  "entry_at d c p = \<lparr>geometry = Some 0, distance_to_home = d, category = c, published = p\<rparr>"

definition entry_without_geometry :: "nat entry" where
  "entry_without_geometry =
     \<lparr>geometry = None, distance_to_home = 0, category = None, published = Some 7\<rparr>"

definition client_with :: "real option \<Rightarrow> string option list option \<Rightarrow> nat entry client" where
  "client_with radius categories = init 1 (0, 0) ''http://feed'' radius categories"

definition record_as_entry :: "real \<times> real \<Rightarrow> nat entry \<Rightarrow> global_data \<Rightarrow> nat entry" where
  "record_as_entry home rss_entry global_data = rss_entry"

definition feed_of :: "nat entry list \<Rightarrow> nat entry feed" where
  "feed_of es = \<lparr>author = Some ''agency'', entries = es\<rparr>"

definition world_of ::
  "exn + response \<Rightarrow> (response \<Rightarrow> exn + string) \<Rightarrow> (string \<Rightarrow> exn + nat entry feed option)
     \<Rightarrow> nat entry world" where
  "world_of answer decode parse_xml =
     \<lparr>request = (\<lambda>method u hdrs prms timeout. answer),
      raise_for_status = (\<lambda>r. if 400 \<le> http_status r then Inl ClientError else Inr ()),
      response_text = decode,
      parse = (\<lambda>p body_text. parse_xml body_text)\<rparr>"

definition response_of :: "nat \<Rightarrow> string option \<Rightarrow> byte list \<Rightarrow> response" where
  "response_of code enc payload =
     \<lparr>http_status = code, charset = enc, encoding = Attribute enc, content = Bytes payload\<rparr>"

definition bom_world :: "nat entry world" where
  "bom_world =
     world_of (Inr (ClientResponse 200 (Some ''iso-8859-1'') [0xEF, 0xBB, 0xBF, 0x3C]))
       (\<lambda>r. Inr ''<rss/>'')
       (\<lambda>t. Inr (Some (feed_of [])))"

section \<open>Properties\<close>

subsection \<open>Helper facts\<close>

lemma category_test: "(card ({c} \<inter> set cs) > 0) = (c \<in> set cs)"
  by (cases "c \<in> set cs") simp_all

lemma le_last_sorted: "sorted ys \<Longrightarrow> x \<in> set ys \<Longrightarrow> x \<le> last (ys::int list)"
  by (induction ys) auto

lemma hd_sorted_reverse:
  assumes "xs \<noteq> []"
  shows "sorted_reverse xs = Max (set xs) # tl (sorted_reverse xs)"
proof -
  have ne: "sort xs \<noteq> []" using assms by (metis length_0_conv length_sort)
  then have "last (sort xs) \<in> set (sort xs)" by (rule last_in_set)
  moreover have "\<And>x. x \<in> set (sort xs) \<Longrightarrow> x \<le> last (sort xs)"
    by (rule le_last_sorted) simp_all
  ultimately have "Max (set (sort xs)) = last (sort xs)"
    by (intro Max_eqI) auto
  then have "hd (rev (sort xs)) = Max (set xs)"
    using ne by (simp add: hd_rev)
  moreover have "rev (sort xs) \<noteq> []" using ne by simp
  ultimately show ?thesis
    unfolding sorted_reverse_def by (metis list.collapse)
qed

lemma set_published:
  "set (List.map_filter published es) = {t. \<exists>e\<in>set es. published e = Some t}"
  unfolding List.map_filter_def by force

lemma set_filter_entries:
  "set (filter_entries c es) =
     {e \<in> set es. geometry e \<noteq> None
        \<and> (case filter_radius c of None \<Rightarrow> True | Some r \<Rightarrow> r = 0 \<or> distance_to_home e \<le> r)
        \<and> (case filter_categories c of None \<Rightarrow> True | Some cs \<Rightarrow> cs = [] \<or> category e \<in> set cs)}"
  by (auto simp: filter_entries_def Let_def category_test split: option.splits)

lemma update_raises_TypeError: "update w ne c = (c, Inl TypeError)"
  by (simp add: update_def call_fetch_def update_on_def unpack_def)

lemma fetch_body_cases:
  "(\<exists>e. fetch_body w c r = (c, Inl e))
   \<or> (\<exists>fd. fetch_body w c r =
         (c\<lparr>parser := Some (XmlParser additional_namespaces), feed_data := Some fd\<rparr>,
          Inr (UPDATE_OK, fd)))"
  by (auto simp: fetch_body_def Let_def split: sum.splits option.splits)

lemma except_outer_cases:
  "except_outer c e = (c, Inr (UPDATE_ERROR, None)) \<or> except_outer c e = (c, Inl e)"
  by (cases e) (simp_all add: except_outer_def)

lemma fetch_cases:
  "(\<exists>e. fetch w c m h p = (c, Inl e))
   \<or> fetch w c m h p = (c, Inr (UPDATE_ERROR, None))
   \<or> (\<exists>fd. fetch w c m h p =
         (c\<lparr>parser := Some (XmlParser additional_namespaces), feed_data := Some fd\<rparr>,
          Inr (UPDATE_OK, fd)))"
proof (cases "request w m (url c) h p client_session_timeout")
  case (Inl e)
  then show ?thesis
    using except_outer_cases [of c e] by (auto simp: fetch_def)
next
  case (Inr r)
  from fetch_body_cases [of w c r] show ?thesis
  proof
    assume "\<exists>e. fetch_body w c r = (c, Inl e)"
    then obtain e where "fetch_body w c r = (c, Inl e)" ..
    then show ?thesis
      using Inr except_outer_cases [of c e]
      by (cases e) (auto simp: fetch_def)
  next
    assume "\<exists>fd. fetch_body w c r =
         (c\<lparr>parser := Some (XmlParser additional_namespaces), feed_data := Some fd\<rparr>,
          Inr (UPDATE_OK, fd))"
    then show ?thesis using Inr by (auto simp: fetch_def)
  qed
qed

lemma fetch_never_no_data: "snd (fetch w c m h p) \<noteq> Inr (UPDATE_OK_NO_DATA, d)"
  using fetch_cases [of w c m h p] by auto

lemma fetch_body_raise:
  "raise_for_status w r = Inl e \<Longrightarrow> fetch_body w c r = (c, Inl e)"
  by (simp add: fetch_body_def)

lemma fetch_body_pre_process_raises:
  "raise_for_status w r = Inr () \<Longrightarrow> pre_process_response (Some r) = Inl e
     \<Longrightarrow> fetch_body w c r = (c, Inl e)"
  by (simp add: fetch_body_def)

lemma fetch_body_parse:
  assumes "raise_for_status w r = Inr ()" and "pre_process_response (Some r) = Inr (Some r')"
    and "response_text w r' = Inr t"
  shows "fetch_body w c r =
           (case parse w (XmlParser additional_namespaces) t of
              Inl e \<Rightarrow> (c, Inl e)
            | Inr fd \<Rightarrow>
                (c\<lparr>parser := Some (XmlParser additional_namespaces), feed_data := Some fd\<rparr>,
                 Inr (UPDATE_OK, fd)))"
  using assms by (simp add: fetch_body_def Let_def)

lemma fetch_on_response:
  assumes "request w m (url c) h p client_session_timeout = Inr r"
  shows "fetch w c m h p =
           (case fetch_body w c r of
              (c', Inl e) \<Rightarrow>
                if e = ClientError \<or> e = TimeoutError then (c', Inr (UPDATE_ERROR, None))
                else (c', Inl e)
            | (c', Inr res) \<Rightarrow> (c', Inr res))"
  using assms
  by (auto simp: fetch_def except_outer_def split: prod.splits sum.splits exn.splits)

lemma fetch_on_failure:
  assumes "request w m (url c) h p client_session_timeout = Inl e"
  shows "fetch w c m h p =
           (if e = ClientError \<or> e = TimeoutError then (c, Inr (UPDATE_ERROR, None))
            else (c, Inl e))"
  using assms by (auto simp: fetch_def except_outer_def split: exn.splits)

lemma subseq_filter_entries: "subseq (filter_entries c xs) xs"
  unfolding filter_entries_def Let_def
  by (auto split: option.splits
        intro: subseq_order.order_trans [OF subseq_filter_left]
        simp: subseq_filter_left)

lemma pre_process_response_AttributeError:
  "encoding r = NoAttribute \<or> (\<exists>payload. content r = StreamReader payload)
     \<Longrightarrow> pre_process_response (Some r) = Inl AttributeError"
  by (auto simp: pre_process_response_def get_encoding_def startswith_def
        split: attribute.splits)

lemma pre_process_response_Bytes:
  "encoding r = Attribute v \<Longrightarrow> content r = Bytes payload
     \<Longrightarrow> pre_process_response (Some r) =
           Inr (Some (if prefix BOM_UTF8 payload
                      then r\<lparr>encoding := Attribute (Some ''utf-8-sig'')\<rparr> else r))"
  by (simp add: pre_process_response_def get_encoding_def startswith_def)

subsection \<open>The newest timestamp\<close>

text \<open>
  Claim C6. For every list of entries in which at least one entry has a published
  timestamp, \<^verbatim>\<open>_extract_last_timestamp\<close> returns the maximum of the published timestamps
  of the entries that have one.
\<close>

theorem extract_last_timestamp_is_max:
  assumes "\<exists>e\<in>set es. published e \<noteq> None"
  shows "extract_last_timestamp es = Some (Max {t. \<exists>e\<in>set es. published e = Some t})"
proof -
  from assms obtain e t where e: "e \<in> set es" "published e = Some t" by auto
  then have "t \<in> set (List.map_filter published es)" by (auto simp: set_published)
  then have ne: "List.map_filter published es \<noteq> []" by auto
  have nonempty: "es \<noteq> []" using e by auto
  obtain rest where
    "sorted_reverse (List.map_filter published es) =
       Max {t. \<exists>e\<in>set es. published e = Some t} # rest"
    using hd_sorted_reverse [OF ne] by (simp only: set_published)
  then show ?thesis
    unfolding extract_last_timestamp_def Let_def
    using nonempty by simp
qed

theorem extract_last_timestamp_is_max_witness:
  "(\<exists>e\<in>set [entry_at 1 None (Some 5), entry_at 2 None None, entry_at 3 None (Some 9)].
      published e \<noteq> None)
   \<and> extract_last_timestamp
       [entry_at 1 None (Some 5), entry_at 2 None None, entry_at 3 None (Some 9)] = Some 9"
proof -
  let ?es = "[entry_at 1 None (Some 5), entry_at 2 None None, entry_at 3 None (Some 9)]"
  have h: "\<exists>e\<in>set ?es. published e \<noteq> None" by (simp add: entry_at_def)
  have "{t. \<exists>e\<in>set ?es. published e = Some t} = {5, 9}"
    by (auto simp: entry_at_def)
  then show ?thesis
    using h extract_last_timestamp_is_max [OF h] by simp
qed

text \<open>
  Claim C1. For every call of \<^verbatim>\<open>update\<close>, \<^verbatim>\<open>last_timestamp\<close> advances or keeps its
  value: it is never cleared and never moves backwards. \<^verbatim>\<open>update\<close> as the class has it
  leaves \<^verbatim>\<open>last_timestamp\<close> as it was on every call, whatever the collaborators do: line 55
  raises before the assignment of lines 65 and 66 is reached.
\<close>

theorem update_keeps_last_timestamp:
  "last_timestamp (fst (update w ne c)) = last_timestamp c"
  by (simp add: update_raises_TypeError)

text \<open>
  The assignment of lines 65 and 66 itself, for every value of \<^verbatim>\<open>self._fetch()\<close>: once
  a pair \<^verbatim>\<open>UPDATE_OK\<close> with a feed is unpacked, \<^verbatim>\<open>last_timestamp\<close> becomes the result of the
  extraction over the filtered entries, which is \<^verbatim>\<open>None\<close> when no entry of the list has
  a published timestamp and their maximum otherwise.
\<close>

lemma update_on_last_timestamp:
  "last_timestamp (fst (update_on ne c v)) =
     (case v of
        Returned s (Some d) \<Rightarrow>
          if s = UPDATE_OK
          then extract_last_timestamp
                 (filter_entries c
                    (map (\<lambda>r. ne (home_coordinates c) r (extract_from_feed d)) (entries d)))
          else last_timestamp c
      | _ \<Rightarrow> last_timestamp c)
   \<and> extract_last_timestamp fs =
     (if List.map_filter published fs = [] then None
      else Some (Max (set (List.map_filter published fs))))"
proof -
  have "extract_last_timestamp fs =
     (if List.map_filter published fs = [] then None
      else Some (Max (set (List.map_filter published fs))))"
  proof (cases "List.map_filter published fs = []")
    case True
    then show ?thesis
      by (simp add: extract_last_timestamp_def sorted_reverse_def)
  next
    case False
    then have "fs \<noteq> []" by (auto simp: List.map_filter_def)
    moreover obtain rest where
      "sorted_reverse (List.map_filter published fs) =
         Max (set (List.map_filter published fs)) # rest"
      using hd_sorted_reverse [OF False] by blast
    ultimately show ?thesis using False
      by (simp add: extract_last_timestamp_def)
  qed
  moreover have "last_timestamp (fst (update_on ne c v)) =
     (case v of
        Returned s (Some d) \<Rightarrow>
          if s = UPDATE_OK
          then extract_last_timestamp
                 (filter_entries c
                    (map (\<lambda>r. ne (home_coordinates c) r (extract_from_feed d)) (entries d)))
          else last_timestamp c
      | _ \<Rightarrow> last_timestamp c)"
    by (simp add: update_on_def unpack_def Let_def split: fetch_value.splits option.splits)
  ultimately show ?thesis by blast
qed

subsection \<open>Filtering\<close>

text \<open>
  Claim C4, as stated, fails. The claim bounds the distance of every returned entry by
  the radius whenever a radius is configured, and puts its category in the category set
  whenever a set is configured. With the radius 0 an entry at distance 5 is returned, and
  with the empty category set an entry of category \<^verbatim>\<open>fire\<close> is returned: both tests of
  \<^verbatim>\<open>_filter_entries\<close> are truthiness tests, which 0 and the empty collection fail.
\<close>

theorem filter_entries_zero_radius_empty_categories:
  "filter_radius (client_with (Some 0) None) = Some 0
   \<and> entry_at 5 None None \<in> set (filter_entries (client_with (Some 0) None) [entry_at 5 None None])
   \<and> \<not> distance_to_home (entry_at 5 None None) \<le> 0
   \<and> filter_categories (client_with None (Some [])) = Some []
   \<and> entry_at 5 (Some ''fire'') None
        \<in> set (filter_entries (client_with None (Some [])) [entry_at 5 (Some ''fire'') None])
   \<and> category (entry_at 5 (Some ''fire'') None) \<notin> set []"
  by (simp add: filter_entries_def client_with_def init_def entry_at_def)

text \<open>
  Claim C4, amended. \<^verbatim>\<open>_filter_entries\<close> returns, in their order, exactly the entries of
  its input that have a geometry, whose distance to home is at most the radius if the
  configured radius is not 0 (an entry exactly at the radius passes), and whose category
  is a member of the configured category collection if that is not empty (so an entry
  without category passes only if \<^verbatim>\<open>None\<close> is a member). In particular every returned
  entry has these three properties.
\<close>

theorem filter_entries_exact:
  "filter_entries c es =
     filter (\<lambda>e. geometry e \<noteq> None
        \<and> (\<forall>r. filter_radius c = Some r \<and> r \<noteq> 0 \<longrightarrow> distance_to_home e \<le> r)
        \<and> (\<forall>cs. filter_categories c = Some cs \<and> cs \<noteq> [] \<longrightarrow> category e \<in> set cs)) es
   \<and> (e \<in> set (filter_entries c es) \<longrightarrow>
        geometry e \<noteq> None
        \<and> (\<forall>r. filter_radius c = Some r \<and> r \<noteq> 0 \<longrightarrow> distance_to_home e \<le> r)
        \<and> (\<forall>cs. filter_categories c = Some cs \<and> cs \<noteq> [] \<longrightarrow> category e \<in> set cs))"
proof -
  have "filter_entries c es =
     filter (\<lambda>e. geometry e \<noteq> None
        \<and> (\<forall>r. filter_radius c = Some r \<and> r \<noteq> 0 \<longrightarrow> distance_to_home e \<le> r)
        \<and> (\<forall>cs. filter_categories c = Some cs \<and> cs \<noteq> [] \<longrightarrow> category e \<in> set cs)) es"
    unfolding filter_entries_def Let_def
    by (cases "filter_radius c"; cases "filter_categories c")
      (auto simp: category_test intro!: filter_cong)
  moreover have "e \<in> set (filter_entries c es) \<longrightarrow>
        geometry e \<noteq> None
        \<and> (\<forall>r. filter_radius c = Some r \<and> r \<noteq> 0 \<longrightarrow> distance_to_home e \<le> r)
        \<and> (\<forall>cs. filter_categories c = Some cs \<and> cs \<noteq> [] \<longrightarrow> category e \<in> set cs)"
    by (auto simp: set_filter_entries)
  ultimately show ?thesis by blast
qed

theorem filter_entries_exact_witness:
  "filter_entries (client_with (Some 50) (Some [Some ''fire'']))
     [entry_without_geometry, entry_at 10 (Some ''fire'') None,
      entry_at 50 (Some ''fire'') None, entry_at 80 (Some ''fire'') None,
      entry_at 20 None None]
     = [entry_at 10 (Some ''fire'') None, entry_at 50 (Some ''fire'') None]
   \<and> entry_at 50 (Some ''fire'') None
       \<in> set (filter_entries (client_with (Some 50) (Some [Some ''fire'']))
                [entry_without_geometry, entry_at 10 (Some ''fire'') None,
                 entry_at 50 (Some ''fire'') None, entry_at 80 (Some ''fire'') None,
                 entry_at 20 None None])
   \<and> geometry (entry_at 50 (Some ''fire'') None) \<noteq> None
   \<and> distance_to_home (entry_at 50 (Some ''fire'') None) \<le> 50
   \<and> category (entry_at 50 (Some ''fire'') None) \<in> set [Some ''fire'']"
proof -
  let ?c = "client_with (Some 50) (Some [Some ''fire''])"
  let ?e = "entry_at 50 (Some ''fire'') None"
  let ?es = "[entry_without_geometry, entry_at 10 (Some ''fire'') None, ?e,
              entry_at 80 (Some ''fire'') None, entry_at 20 None None]"
  have r: "filter_radius ?c = Some 50" and cs: "filter_categories ?c = Some [Some ''fire'']"
    by (simp_all add: client_with_def init_def)
  have "filter_entries ?c ?es =
     filter (\<lambda>e. geometry e \<noteq> None
        \<and> (\<forall>r. filter_radius ?c = Some r \<and> r \<noteq> 0 \<longrightarrow> distance_to_home e \<le> r)
        \<and> (\<forall>cs. filter_categories ?c = Some cs \<and> cs \<noteq> [] \<longrightarrow> category e \<in> set cs)) ?es"
    using filter_entries_exact [of ?c ?es ?e] by blast
  then have eq: "filter_entries ?c ?es = [entry_at 10 (Some ''fire'') None, ?e]"
    by (simp add: r cs entry_at_def entry_without_geometry_def)
  have m: "?e \<in> set (filter_entries ?c ?es)"
    by (simp add: eq)
  have "geometry ?e \<noteq> None
        \<and> (\<forall>r. filter_radius ?c = Some r \<and> r \<noteq> 0 \<longrightarrow> distance_to_home ?e \<le> r)
        \<and> (\<forall>cs. filter_categories ?c = Some cs \<and> cs \<noteq> [] \<longrightarrow> category ?e \<in> set cs)"
    using m filter_entries_exact [of ?c ?es ?e] by blast
  then show ?thesis using eq m r cs by simp
qed

text \<open>
  Claim C9. A configured radius of 0 skips the radius stage and a configured empty
  category collection skips the category stage: the result is the one of a client without
  that filter, and with both every entry that has a geometry is returned, whatever its
  distance and its category.
\<close>

theorem filter_entries_skips_falsy_filters:
  "(filter_radius c = Some 0 \<longrightarrow>
      filter_entries c es = filter_entries (c\<lparr>filter_radius := None\<rparr>) es)
   \<and> (filter_categories c = Some [] \<longrightarrow>
      filter_entries c es = filter_entries (c\<lparr>filter_categories := None\<rparr>) es)
   \<and> (filter_radius c = Some 0 \<and> filter_categories c = Some [] \<longrightarrow>
      filter_entries c es = filter (\<lambda>e. geometry e \<noteq> None) es)"
  by (simp add: filter_entries_def)

theorem filter_entries_skips_falsy_filters_witness:
  "filter_radius (client_with (Some 0) (Some [])) = Some 0
   \<and> filter_categories (client_with (Some 0) (Some [])) = Some []
   \<and> filter_entries (client_with (Some 0) (Some []))
       [entry_without_geometry, entry_at 80 (Some ''fire'') None, entry_at 5 None None]
     = [entry_at 80 (Some ''fire'') None, entry_at 5 None None]"
proof -
  let ?c = "client_with (Some 0) (Some [])"
  have h: "filter_radius ?c = Some 0 \<and> filter_categories ?c = Some []"
    by (simp add: client_with_def init_def)
  let ?es = "[entry_without_geometry, entry_at 80 (Some ''fire'') None, entry_at 5 None None]"
  have "filter_entries ?c ?es = filter (\<lambda>e. geometry e \<noteq> None) ?es"
    using h filter_entries_skips_falsy_filters [of ?c ?es] by blast
  then have "filter_entries ?c ?es = [entry_at 80 (Some ''fire'') None, entry_at 5 None None]"
    by (simp add: entry_at_def entry_without_geometry_def)
  then show ?thesis using h by simp
qed

text \<open>
  Claim C10. \<^verbatim>\<open>_filter_entries\<close> returns a subsequence of its input: every returned
  entry is an entry of the input and the surviving entries keep their relative order.
  Whenever \<^verbatim>\<open>update\<close>, from the value of \<^verbatim>\<open>self._fetch()\<close> on, returns a list, that list
  is a subsequence of the entries built from the records of the feed in the feed's order.
\<close>

theorem filter_entries_subseq:
  "subseq (filter_entries c es) es
   \<and> set (filter_entries c es) \<subseteq> set es
   \<and> (\<forall>c' s fs. update_on ne c v = (c', Inr (s, Some fs)) \<longrightarrow>
        (\<exists>d. v = Returned UPDATE_OK (Some d)
           \<and> subseq fs (map (\<lambda>r. ne (home_coordinates c) r (extract_from_feed d)) (entries d))))"
proof -
  have "set (filter_entries c es) \<subseteq> set es"
    by (auto simp: set_filter_entries)
  moreover have "\<forall>c' s fs. update_on ne c v = (c', Inr (s, Some fs)) \<longrightarrow>
        (\<exists>d. v = Returned UPDATE_OK (Some d)
           \<and> subseq fs (map (\<lambda>r. ne (home_coordinates c) r (extract_from_feed d)) (entries d)))"
    by (auto simp: update_on_def unpack_def Let_def subseq_filter_entries
          split: fetch_value.splits option.splits if_splits)
  ultimately show ?thesis using subseq_filter_entries [of c es] by blast
qed

theorem filter_entries_subseq_witness:
  "snd (update_on record_as_entry (client_with (Some 50) None)
          (Returned UPDATE_OK
             (Some (feed_of [entry_without_geometry, entry_at 10 None None,
                             entry_at 80 None None, entry_at 20 None None]))))
     = Inr (UPDATE_OK, Some [entry_at 10 None None, entry_at 20 None None])
   \<and> subseq [entry_at 10 None None, entry_at 20 None None]
       [entry_without_geometry, entry_at 10 None None, entry_at 80 None None,
        entry_at 20 None None]"
proof -
  let ?c = "client_with (Some 50) None"
  let ?es = "[entry_without_geometry, entry_at 10 None None, entry_at 80 None None,
              entry_at 20 None None]"
  let ?fs = "[entry_at 10 None None, entry_at 20 None None]"
  let ?v = "Returned UPDATE_OK (Some (feed_of ?es))"
  have f: "filter_entries ?c ?es = ?fs"
    by (simp add: filter_entries_def client_with_def init_def entry_at_def
          entry_without_geometry_def)
  have u: "update_on record_as_entry ?c ?v
             = (?c\<lparr>last_timestamp := extract_last_timestamp ?fs\<rparr>, Inr (UPDATE_OK, Some ?fs))"
    unfolding update_on_def unpack_def Let_def
    by (simp add: feed_of_def record_as_entry_def f [simplified])
  then obtain d where "?v = Returned UPDATE_OK (Some d)"
    and s: "subseq ?fs (map (\<lambda>r. record_as_entry (home_coordinates ?c) r (extract_from_feed d))
                          (entries d))"
    using filter_entries_subseq [of ?c ?es record_as_entry ?v] by blast
  then have "d = feed_of ?es" by simp
  with s have "subseq ?fs ?es"
    by (simp add: feed_of_def record_as_entry_def)
  then show ?thesis using u by simp
qed

subsection \<open>The call of \<^verbatim>\<open>_fetch\<close> in \<^verbatim>\<open>update\<close>\<close>

text \<open>
  Claim C2. The claim says that \<^verbatim>\<open>update\<close> returns \<^verbatim>\<open>(UPDATE_OK_NO_DATA, None)\<close> and
  leaves \<^verbatim>\<open>last_timestamp\<close> alone when the fetch observes that the source is unchanged.
  The code does not: \<^verbatim>\<open>update\<close> raises \<^verbatim>\<open>TypeError\<close> on every call, because line 55
  unpacks the coroutine that \<^verbatim>\<open>self._fetch()\<close> evaluates to; and the body of \<^verbatim>\<open>_fetch\<close>
  never yields the status \<^verbatim>\<open>UPDATE_OK_NO_DATA\<close>. Only the dispatch of lines 71 to 73 does
  what the claim says, once it is given that status.
\<close>

theorem update_not_modified:
  "update w ne c = (c, Inl TypeError)
   \<and> snd (fetch w c m h p) \<noteq> Inr (UPDATE_OK_NO_DATA, d)
   \<and> update_on ne c (Returned UPDATE_OK_NO_DATA d) = (c, Inr (UPDATE_OK_NO_DATA, None))"
  by (simp add: update_raises_TypeError fetch_never_no_data update_on_def unpack_def)

text \<open>
  Claim C5. The claim says that on a transport failure or a timeout \<^verbatim>\<open>update\<close> returns
  \<^verbatim>\<open>(UPDATE_ERROR, None)\<close> and leaves the client as it was. The body of \<^verbatim>\<open>_fetch\<close> does
  its part: a \<^verbatim>\<open>ClientError\<close> or a timeout of the request, the \<^verbatim>\<open>ClientError\<close> that
  \<^verbatim>\<open>raise_for_status\<close> raises, and a \<^verbatim>\<open>ClientError\<close> or a timeout while the body is read
  all give \<^verbatim>\<open>(UPDATE_ERROR, None)\<close> with the client unchanged, and the dispatch of lines
  74 to 76 passes that result on. But \<^verbatim>\<open>update\<close> never runs that body: it raises
  \<^verbatim>\<open>TypeError\<close> on every call.
\<close>

theorem update_transport_failure:
  "(request w m (url c) h p client_session_timeout = Inl e
      \<and> (e = ClientError \<or> e = TimeoutError)
      \<longrightarrow> fetch w c m h p = (c, Inr (UPDATE_ERROR, None)))
   \<and> (request w m (url c) h p client_session_timeout = Inr r
      \<and> raise_for_status w r = Inl ClientError
      \<longrightarrow> fetch w c m h p = (c, Inr (UPDATE_ERROR, None)))
   \<and> (request w m (url c) h p client_session_timeout = Inr r
      \<and> snd (fetch_body w c r) = Inl e \<and> (e = ClientError \<or> e = TimeoutError)
      \<longrightarrow> fetch w c m h p = (c, Inr (UPDATE_ERROR, None)))
   \<and> update_on ne c (Returned UPDATE_ERROR d) = (c, Inr (UPDATE_ERROR, None))
   \<and> update w ne c = (c, Inl TypeError)"
proof -
  have "fetch w c m h p = (c, Inr (UPDATE_ERROR, None))"
    if "request w m (url c) h p client_session_timeout = Inr r"
      and "snd (fetch_body w c r) = Inl e" and "e = ClientError \<or> e = TimeoutError"
  proof -
    from fetch_body_cases [of w c r] that(2) have "fetch_body w c r = (c, Inl e)" by auto
    then show ?thesis using that(1,3) by (auto simp: fetch_on_response)
  qed
  moreover have "fetch w c m h p = (c, Inr (UPDATE_ERROR, None))"
    if "request w m (url c) h p client_session_timeout = Inr r"
      and "raise_for_status w r = Inl ClientError"
    using that by (simp add: fetch_on_response fetch_body_raise)
  ultimately show ?thesis
    by (auto simp: fetch_on_failure update_raises_TypeError update_on_def unpack_def)
qed

theorem update_transport_failure_witness:
  "fetch (world_of (Inl TimeoutError) (\<lambda>r. Inr []) (\<lambda>t. Inr None))
     (client_with None None) ''GET'' None None
     = (client_with None None, Inr (UPDATE_ERROR, None))
   \<and> fetch (world_of (Inl ClientError) (\<lambda>r. Inr []) (\<lambda>t. Inr None))
     (client_with None None) ''GET'' None None
     = (client_with None None, Inr (UPDATE_ERROR, None))
   \<and> fetch (world_of (Inr (ClientResponse 404 None [])) (\<lambda>r. Inr []) (\<lambda>t. Inr None))
     (client_with None None) ''GET'' None None
     = (client_with None None, Inr (UPDATE_ERROR, None))
   \<and> fetch (world_of (Inr (response_of 200 None [])) (\<lambda>r. Inl TimeoutError) (\<lambda>t. Inr None))
     (client_with None None) ''GET'' None None
     = (client_with None None, Inr (UPDATE_ERROR, None))
   \<and> update (world_of (Inl TimeoutError) (\<lambda>r. Inr []) (\<lambda>t. Inr None))
       record_as_entry (client_with None None)
     = (client_with None None, Inl TypeError)"
proof -
  let ?c = "client_with None None"
  let ?w1 = "world_of (Inl TimeoutError) (\<lambda>r. Inr []) (\<lambda>t. Inr None)"
  let ?w2 = "world_of (Inl ClientError) (\<lambda>r. Inr []) (\<lambda>t. Inr None)"
  let ?w3 = "world_of (Inr (ClientResponse 404 None [])) (\<lambda>r. Inr []) (\<lambda>t. Inr None)"
  let ?w4 = "world_of (Inr (response_of 200 None [])) (\<lambda>r. Inl TimeoutError) (\<lambda>t. Inr None)"
  have 1: "request ?w1 ''GET'' (url ?c) None None client_session_timeout = Inl TimeoutError"
    by (simp add: world_of_def)
  have 2: "request ?w2 ''GET'' (url ?c) None None client_session_timeout = Inl ClientError"
    by (simp add: world_of_def)
  have 3: "request ?w3 ''GET'' (url ?c) None None client_session_timeout
             = Inr (ClientResponse 404 None [])
           \<and> raise_for_status ?w3 (ClientResponse 404 None []) = Inl ClientError"
    by (simp add: world_of_def ClientResponse_def)
  have 4: "request ?w4 ''GET'' (url ?c) None None client_session_timeout
             = Inr (response_of 200 None [])
           \<and> snd (fetch_body ?w4 ?c (response_of 200 None [])) = Inl TimeoutError"
    by (simp add: world_of_def response_of_def fetch_body_def pre_process_response_def
          get_encoding_def startswith_def BOM_UTF8_def)
  have a: "fetch ?w1 ?c ''GET'' None None = (?c, Inr (UPDATE_ERROR, None))"
    using 1 update_transport_failure [of ?w1 "''GET''" ?c None None TimeoutError] by blast
  have b: "fetch ?w2 ?c ''GET'' None None = (?c, Inr (UPDATE_ERROR, None))"
    using 2 update_transport_failure [of ?w2 "''GET''" ?c None None ClientError] by blast
  have c: "fetch ?w3 ?c ''GET'' None None = (?c, Inr (UPDATE_ERROR, None))"
    using 3 update_transport_failure
      [of ?w3 "''GET''" ?c None None _ "ClientResponse 404 None []"] by blast
  have d: "fetch ?w4 ?c ''GET'' None None = (?c, Inr (UPDATE_ERROR, None))"
    using 4 update_transport_failure
      [of ?w4 "''GET''" ?c None None TimeoutError "response_of 200 None []"] by blast
  have e: "update ?w1 record_as_entry ?c = (?c, Inl TypeError)"
    using update_transport_failure [of ?w1 _ ?c _ _ _ _ record_as_entry] by blast
  show ?thesis using a b c d e by simp
qed

text \<open>
  Claim C3. The claim says that a failure of the XML parser is caught and becomes the
  result \<^verbatim>\<open>(UPDATE_ERROR, None)\<close>, and that no exception leaves \<^verbatim>\<open>update\<close>. The code does
  not. When the request, the pre-processing and the decoding succeed and the parser
  raises \<open>e\<close>, the body of \<^verbatim>\<open>_fetch\<close> returns the error result only if \<open>e\<close> is a
  \<^verbatim>\<open>ClientError\<close> or an \<^verbatim>\<open>asyncio.TimeoutError\<close>; an exception of any other class, as a
  parser's is, leaves \<^verbatim>\<open>_fetch\<close>, whose handlers name those two classes only. On a
  response without the attribute \<^verbatim>\<open>encoding\<close>, as a \<^verbatim>\<open>ClientResponse\<close> is, the
  \<^verbatim>\<open>AttributeError\<close> of the pre-processing leaves \<^verbatim>\<open>_fetch\<close> before the parser is called.
  And \<^verbatim>\<open>update\<close> raises \<^verbatim>\<open>TypeError\<close> on every call.
\<close>

theorem fetch_parser_failure_escapes:
  "(request w m (url c) h p client_session_timeout = Inr r
      \<and> raise_for_status w r = Inr ()
      \<and> pre_process_response (Some r) = Inr (Some r')
      \<and> response_text w r' = Inr t
      \<and> parse w (XmlParser additional_namespaces) t = Inl e
      \<longrightarrow> fetch w c m h p =
            (if e = ClientError \<or> e = TimeoutError then (c, Inr (UPDATE_ERROR, None))
             else (c, Inl e)))
   \<and> (request w m (url c) h p client_session_timeout = Inr r
      \<and> raise_for_status w r = Inr ()
      \<and> encoding r = NoAttribute
      \<longrightarrow> fetch w c m h p = (c, Inl AttributeError))
   \<and> update w ne c = (c, Inl TypeError)"
proof -
  have "fetch w c m h p = (c, Inl AttributeError)"
    if "request w m (url c) h p client_session_timeout = Inr r"
      and "raise_for_status w r = Inr ()" and "encoding r = NoAttribute"
  proof -
    have "pre_process_response (Some r) = Inl AttributeError"
      using that(3) by (simp add: pre_process_response_AttributeError)
    with that(2) have "fetch_body w c r = (c, Inl AttributeError)"
      by (rule fetch_body_pre_process_raises)
    then show ?thesis using that(1) by (simp add: fetch_on_response)
  qed
  then show ?thesis
    by (auto simp: fetch_on_response fetch_body_parse update_raises_TypeError)
qed

theorem fetch_parser_failure_escapes_witness:
  "fetch (world_of (Inr (response_of 200 (Some ''utf-8'') [0x3C, 0x72]))
            (\<lambda>r. Inr ''<r'') (\<lambda>t. Inl (OtherException ''ExpatError'')))
     (client_with None None) ''GET'' None None
     = (client_with None None, Inl (OtherException ''ExpatError''))
   \<and> fetch (world_of (Inr (ClientResponse 200 (Some ''utf-8'') [0x3C, 0x72]))
            (\<lambda>r. Inr ''<r'') (\<lambda>t. Inl (OtherException ''ExpatError'')))
     (client_with None None) ''GET'' None None
     = (client_with None None, Inl AttributeError)
   \<and> update (world_of (Inr (ClientResponse 200 (Some ''utf-8'') [0x3C, 0x72]))
            (\<lambda>r. Inr ''<r'') (\<lambda>t. Inl (OtherException ''ExpatError'')))
       record_as_entry (client_with None None)
     = (client_with None None, Inl TypeError)"
proof -
  let ?r = "response_of 200 (Some ''utf-8'') [0x3C, 0x72]"
  let ?w = "world_of (Inr ?r) (\<lambda>r. Inr ''<r'') (\<lambda>t. Inl (OtherException ''ExpatError''))"
  let ?a = "ClientResponse 200 (Some ''utf-8'') [0x3C, 0x72]"
  let ?v = "world_of (Inr ?a) (\<lambda>r. Inr ''<r'') (\<lambda>t. Inl (OtherException ''ExpatError''))"
  let ?c = "client_with None None"
  have 1: "request ?w ''GET'' (url ?c) None None client_session_timeout = Inr ?r
         \<and> raise_for_status ?w ?r = Inr ()
         \<and> pre_process_response (Some ?r) = Inr (Some ?r)
         \<and> response_text ?w ?r = Inr ''<r''
         \<and> parse ?w (XmlParser additional_namespaces) ''<r''
             = Inl (OtherException ''ExpatError'')"
    by (simp add: world_of_def response_of_def pre_process_response_def get_encoding_def
          startswith_def BOM_UTF8_def)
  have 2: "request ?v ''GET'' (url ?c) None None client_session_timeout = Inr ?a
         \<and> raise_for_status ?v ?a = Inr ()
         \<and> encoding ?a = NoAttribute"
    by (simp add: world_of_def ClientResponse_def)
  have "fetch ?w ?c ''GET'' None None =
          (if OtherException ''ExpatError'' = ClientError
              \<or> OtherException ''ExpatError'' = TimeoutError
           then (?c, Inr (UPDATE_ERROR, None))
           else (?c, Inl (OtherException ''ExpatError'')))"
    using 1 fetch_parser_failure_escapes
      [where w = ?w and m = "''GET''" and c = ?c and h = None and p = None and r = ?r
         and r' = ?r and t = "''<r''" and e = "OtherException ''ExpatError''"
         and ne = record_as_entry]
    by blast
  then have a: "fetch ?w ?c ''GET'' None None = (?c, Inl (OtherException ''ExpatError''))"
    by simp
  have b: "fetch ?v ?c ''GET'' None None = (?c, Inl AttributeError)"
    using 2 fetch_parser_failure_escapes
      [where w = ?v and m = "''GET''" and c = ?c and h = None and p = None and r = ?a
         and ne = record_as_entry]
    by blast
  have c: "update ?v record_as_entry ?c = (?c, Inl TypeError)"
    using fetch_parser_failure_escapes [where w = ?v and c = ?c and ne = record_as_entry]
    by blast
  show ?thesis using a b c by simp
qed

subsection \<open>The byte-order mark\<close>

text \<open>
  Claim C7. The claim says that for a payload that begins with the UTF-8 byte-order
  mark \<^verbatim>\<open>_pre_process_response\<close> sets the decoder to \<^verbatim>\<open>utf-8-sig\<close>, so that the parser
  receives correctly decoded text, and leaves the declared encoding alone otherwise. The
  code does not: on a response that has no attribute \<^verbatim>\<open>encoding\<close>, or whose \<^verbatim>\<open>content\<close> is
  a stream reader, as a \<^verbatim>\<open>ClientResponse\<close> is on both counts, \<^verbatim>\<open>_pre_process_response\<close>
  raises \<^verbatim>\<open>AttributeError\<close>, with or without the mark; no handler of \<^verbatim>\<open>_fetch\<close> catches
  it, so \<^verbatim>\<open>_fetch\<close> raises it once the status check has passed: nothing is decoded and the
  parser is not called.
\<close>

theorem pre_process_response_raises:
  "(encoding r = NoAttribute \<or> (\<exists>payload. content r = StreamReader payload)
      \<longrightarrow> pre_process_response (Some r) = Inl AttributeError)
   \<and> pre_process_response (Some (ClientResponse code declared payload)) = Inl AttributeError
   \<and> (request w m (url c) h p client_session_timeout = Inr r
      \<and> raise_for_status w r = Inr ()
      \<and> (encoding r = NoAttribute \<or> (\<exists>payload. content r = StreamReader payload))
      \<longrightarrow> fetch w c m h p = (c, Inl AttributeError))"
proof -
  have "fetch w c m h p = (c, Inl AttributeError)"
    if "request w m (url c) h p client_session_timeout = Inr r"
      and "raise_for_status w r = Inr ()"
      and "encoding r = NoAttribute \<or> (\<exists>payload. content r = StreamReader payload)"
  proof -
    have "pre_process_response (Some r) = Inl AttributeError"
      using that(3) by (rule pre_process_response_AttributeError)
    with that(2) have "fetch_body w c r = (c, Inl AttributeError)"
      by (rule fetch_body_pre_process_raises)
    then show ?thesis using that(1) by (simp add: fetch_on_response)
  qed
  moreover have
    "pre_process_response (Some (ClientResponse code declared payload)) = Inl AttributeError"
    by (rule pre_process_response_AttributeError) (simp add: ClientResponse_def)
  ultimately show ?thesis
    using pre_process_response_AttributeError [of r] by blast
qed

theorem pre_process_response_raises_witness:
  "encoding (ClientResponse 200 (Some ''iso-8859-1'') [0xEF, 0xBB, 0xBF, 0x3C]) = NoAttribute
   \<and> pre_process_response (Some (ClientResponse 200 (Some ''iso-8859-1'') [0xEF, 0xBB, 0xBF, 0x3C]))
     = Inl AttributeError
   \<and> fetch bom_world (client_with None None) ''GET'' None None
     = (client_with None None, Inl AttributeError)"
proof -
  let ?r = "ClientResponse 200 (Some ''iso-8859-1'') [0xEF, 0xBB, 0xBF, 0x3C]"
  let ?c = "client_with None None"
  have 1: "encoding ?r = NoAttribute"
    by (simp add: ClientResponse_def)
  have 2: "request bom_world ''GET'' (url ?c) None None client_session_timeout = Inr ?r
         \<and> raise_for_status bom_world ?r = Inr ()"
    by (simp add: bom_world_def world_of_def ClientResponse_def)
  have a: "pre_process_response (Some ?r) = Inl AttributeError"
    using 1 pre_process_response_raises [of ?r] by blast
  have b: "fetch bom_world ?c ''GET'' None None = (?c, Inl AttributeError)"
    using 1 2 pre_process_response_raises [of ?r _ _ _ bom_world "''GET''" ?c None None]
    by blast
  show ?thesis using 1 a b by simp
qed

subsection \<open>The attributes a call assigns\<close>

text \<open>
  Claim C8. For every call of \<^verbatim>\<open>update\<close>, \<^verbatim>\<open>last_timestamp\<close> is the only attribute of
  the client that may change: the session, the home coordinates, the URL, the radius, the
  categories and every other attribute are after the call what they were before. This
  holds of \<^verbatim>\<open>update\<close> as the class has it, and of lines 55 to 76 for every value of
  \<^verbatim>\<open>self._fetch()\<close>.
\<close>

theorem update_frame:
  "fst (update w ne c) = c\<lparr>last_timestamp := last_timestamp (fst (update w ne c))\<rparr>
   \<and> websession (fst (update w ne c)) = websession c
   \<and> home_coordinates (fst (update w ne c)) = home_coordinates c
   \<and> url (fst (update w ne c)) = url c
   \<and> filter_radius (fst (update w ne c)) = filter_radius c
   \<and> filter_categories (fst (update w ne c)) = filter_categories c
   \<and> parser (fst (update w ne c)) = parser c
   \<and> feed_data (fst (update w ne c)) = feed_data c
   \<and> fst (update_on ne c v) = c\<lparr>last_timestamp := last_timestamp (fst (update_on ne c v))\<rparr>"
proof -
  have "fst (update_on ne c v) = c\<lparr>last_timestamp := last_timestamp (fst (update_on ne c v))\<rparr>"
    by (simp add: update_on_def unpack_def Let_def split: fetch_value.splits option.splits)
  then show ?thesis by (simp add: update_raises_TypeError)
qed

end
